theory Spec2Isabelle
  imports Main
begin

section \<open>Data model of the integration proxy (main.py)\<close>

text \<open>
  JSON-like values carried by \<^verbatim>\<open>Dict[str, Any]\<close>. A Python dict is an
  insertion-ordered association of distinct keys to values; it is modelled as an
  association list read with \<open>map_of\<close>. \<open>JFloat m e\<close> stands for the decimal
  literal \<open>m / 10 ^ e\<close> of the source (\<^verbatim>\<open>15.99\<close> is \<open>JFloat 1599 2\<close>); the program
  never computes with it.
\<close>

datatype json =
    JNull
  | JBool bool
  | JInt int
  | JFloat int nat
  | JStr string
  | JList "json list"
  | JDict "(string \<times> json) list"

type_synonym json_dict = "(string \<times> json) list"

type_synonym cred_dict = "(string \<times> string) list"

text \<open>\<^verbatim>\<open>d.get(k, default)\<close> and \<^verbatim>\<open>k in d\<close>.\<close>

definition dict_get :: "('k \<times> 'v) list \<Rightarrow> 'k \<Rightarrow> 'v \<Rightarrow> 'v" where
  "dict_get d k dflt = (case map_of d k of Some v \<Rightarrow> v | None \<Rightarrow> dflt)"

definition dict_contains :: "'k \<Rightarrow> ('k \<times> 'v) list \<Rightarrow> bool" where
  "dict_contains k d = (map_of d k \<noteq> None)"

text \<open>\<^verbatim>\<open>class Provider(str, Enum)\<close> and \<^verbatim>\<open>class AuthType(str, Enum)\<close>.\<close>

datatype Provider = SALESFORCE | UPS

fun Provider_value :: "Provider \<Rightarrow> string" where
  "Provider_value SALESFORCE = ''salesforce''"
| "Provider_value UPS = ''ups''"

datatype AuthType = PASSWORD | API_KEY | OAUTH

text \<open>
  \<^verbatim>\<open>IntegrationRequest\<close>: \<open>auth_type\<close> is \<^verbatim>\<open>Optional[AuthType]\<close> (default
  \<^verbatim>\<open>AuthType.API_KEY\<close>, an explicit null is \<open>None\<close>), \<open>auth_credentials\<close> is
  \<^verbatim>\<open>Optional[Dict[str, str]]\<close> (default \<open>None\<close>).
\<close>

record IntegrationRequest =
  action :: string
  parameters :: json_dict
  auth_type :: "AuthType option"
  auth_credentials :: "cred_dict option"

text \<open>
  \<^verbatim>\<open>IntegrationResponse\<close>. Its fourth field is \<^verbatim>\<open>action\<close> in the source; it is
  \<open>action_echo\<close> here, the request's field already having that name.
\<close>

record IntegrationResponse =
  status :: string
  data :: json_dict
  provider :: string
  action_echo :: string

section \<open>Python values and truthiness\<close>

text \<open>
  \<^verbatim>\<open>_validate_auth_credentials\<close> is annotated \<^verbatim>\<open>-> bool\<close> but its first branch
  returns the value of \<^verbatim>\<open>x and y\<close> on two \<^verbatim>\<open>Optional[str]\<close>, and its caller only
  tests \<^verbatim>\<open>not ...\<close>. The values it can return and their truth value:
\<close>

datatype pyval = PyNone | PyStr string | PyBool bool

fun truthy :: "pyval \<Rightarrow> bool" where
  "truthy PyNone = False"
| "truthy (PyStr s) = (s \<noteq> [])"
| "truthy (PyBool b) = b"

text \<open>\<^verbatim>\<open>a and b\<close>: \<open>a\<close> when \<open>a\<close> is falsy, else \<open>b\<close>.\<close>

definition py_and :: "pyval \<Rightarrow> pyval \<Rightarrow> pyval" where
  "py_and a b = (if truthy a then b else a)"

text \<open>\<^verbatim>\<open>credentials.get(k)\<close> on a \<^verbatim>\<open>Dict[str, str]\<close>: the string, or \<^verbatim>\<open>None\<close>.\<close>

definition cred_get :: "cred_dict \<Rightarrow> string \<Rightarrow> pyval" where
  "cred_get credentials k = (case map_of credentials k of Some s \<Rightarrow> PyStr s | None \<Rightarrow> PyNone)"

section \<open>Credential validator\<close>

text \<open>\<^verbatim>\<open>_validate_auth_credentials(auth_type, credentials)\<close> (lines 210-221).\<close>

definition validate_auth_credentials :: "AuthType option \<Rightarrow> cred_dict \<Rightarrow> pyval" where
  "validate_auth_credentials atype credentials =
     (if atype = Some PASSWORD then
        py_and (cred_get credentials ''username'') (cred_get credentials ''password'')
      else if atype = Some API_KEY then
        PyBool (cred_get credentials ''api_key'' \<noteq> PyNone)
      else if atype = Some OAUTH then
        PyBool (cred_get credentials ''access_token'' \<noteq> PyNone)
      else PyBool False)"

section \<open>Provider handlers\<close>

text \<open>
  The handlers only read their arguments and suspend for a fixed delay
  (\<^verbatim>\<open>await asyncio.sleep(0.5)\<close>, \<^verbatim>\<open>0.8\<close>). The delay is the one effect they have;
  it is kept as a logical clock in milliseconds that every call takes and returns.
\<close>

type_synonym clock = nat

definition sleep :: "nat \<Rightarrow> clock \<Rightarrow> clock" where
  "sleep ms t = t + ms"

type_synonym handler =
  "string \<Rightarrow> json_dict \<Rightarrow> cred_dict option \<Rightarrow> clock \<Rightarrow> json_dict \<times> clock"

text \<open>\<^verbatim>\<open>SalesforceHandler.handle_request\<close> (lines 40-72).\<close>

definition SalesforceHandler_handle_request :: handler where
  "SalesforceHandler_handle_request act params creds t =
     (let t' = sleep 500 t in
      if act = ''create_lead'' then
        ([(''id'', JStr ''00Q1234567890ABC''),
          (''email'', dict_get params ''email'' (JStr ''test@example.com'')),
          (''company'', dict_get params ''company'' (JStr ''Test Company'')),
          (''status'', JStr ''New''),
          (''created_date'', JStr ''2024-01-15T10:30:00Z'')], t')
      else if act = ''update_contact'' then
        ([(''id'', dict_get params ''contact_id'' (JStr ''0031234567890ABC'')),
          (''email'', dict_get params ''email'' (JStr ''updated@example.com'')),
          (''phone'', dict_get params ''phone'' (JStr ''+1234567890'')),
          (''last_modified'', JStr ''2024-01-15T10:30:00Z'')], t')
      else if act = ''get_account'' then
        ([(''id'', dict_get params ''account_id'' (JStr ''0011234567890ABC'')),
          (''name'', JStr ''Acme Corporation''),
          (''industry'', JStr ''Technology''),
          (''annual_revenue'', JInt 1000000),
          (''employees'', JInt 500)], t')
      else
        ([(''error'', JStr (''Unknown Salesforce action: '' @ act)),
          (''available_actions'',
             JList [JStr ''create_lead'', JStr ''update_contact'', JStr ''get_account''])], t'))"

text \<open>\<^verbatim>\<open>UPSHandler.handle_request\<close> (lines 78-117).\<close>

definition UPSHandler_handle_request :: handler where
  "UPSHandler_handle_request act params creds t =
     (let t' = sleep 800 t in
      if act = ''track_package'' then
        ([(''tracking_number'', dict_get params ''tracking_number'' (JStr ''1Z999AA1234567890'')),
          (''status'', JStr ''In Transit''),
          (''location'', JStr ''Memphis, TN''),
          (''estimated_delivery'', JStr ''2024-01-18T14:00:00Z''),
          (''shipment_details'',
             JDict [(''weight'', JStr ''2.5 lbs''),
                    (''service'', JStr ''Ground''),
                    (''origin'', JStr ''New York, NY''),
                    (''destination'', JStr ''Los Angeles, CA'')])], t')
      else if act = ''calculate_shipping'' then
        ([(''origin_zip'', dict_get params ''origin_zip'' (JStr ''10001'')),
          (''destination_zip'', dict_get params ''destination_zip'' (JStr ''90210'')),
          (''weight'', dict_get params ''weight'' (JStr ''5.0'')),
          (''service'', dict_get params ''service'' (JStr ''Ground'')),
          (''rate'', JFloat 1599 2),
          (''delivery_days'', JInt 5)], t')
      else if act = ''create_shipment'' then
        ([(''shipment_id'', JStr ''UPS123456789''),
          (''tracking_number'', JStr ''1Z999AA1234567890''),
          (''label_url'', JStr ''https://api.ups.com/labels/123456789.pdf''),
          (''rate'', JFloat 2550 2),
          (''estimated_delivery'', JStr ''2024-01-18T14:00:00Z'')], t')
      else
        ([(''error'', JStr (''Unknown UPS action: '' @ act)),
          (''available_actions'',
             JList [JStr ''track_package'', JStr ''calculate_shipping'', JStr ''create_shipment''])], t'))"

text \<open>The registry \<^verbatim>\<open>PROVIDER_HANDLERS\<close> (lines 120-123).\<close>

definition PROVIDER_HANDLERS :: "(Provider \<times> handler) list" where
  "PROVIDER_HANDLERS =
     [(SALESFORCE, SalesforceHandler_handle_request), (UPS, UPSHandler_handle_request)]"

text \<open>
  The action names each handler matches, in the order of its \<^verbatim>\<open>if\<close>/\<^verbatim>\<open>elif\<close>
  chain, and the provider's name as the handler's error message spells it.
\<close>

fun known_actions :: "Provider \<Rightarrow> string list" where
  "known_actions SALESFORCE = [''create_lead'', ''update_contact'', ''get_account'']"
| "known_actions UPS = [''track_package'', ''calculate_shipping'', ''create_shipment'']"

fun display_name :: "Provider \<Rightarrow> string" where
  "display_name SALESFORCE = ''Salesforce''"
| "display_name UPS = ''UPS''"

text \<open>
  The handler of a provider, as a total function on the enum; \<open>registry_total\<close>
  below shows that it is what the registry holds.
\<close>

fun handle_request :: "Provider \<Rightarrow> handler" where
  "handle_request SALESFORCE = SalesforceHandler_handle_request"
| "handle_request UPS = UPSHandler_handle_request"

fun delay :: "Provider \<Rightarrow> nat" where
  "delay SALESFORCE = 500"
| "delay UPS = 800"

section \<open>Dispatcher\<close>

text \<open>
  Exceptions raised inside \<^verbatim>\<open>integrate_provider\<close>: only FastAPI's
  \<^verbatim>\<open>HTTPException(status_code, detail)\<close>. It derives from Starlette's
  \<^verbatim>\<open>HTTPException\<close>, a subclass of \<^verbatim>\<open>Exception\<close>, so an \<^verbatim>\<open>except Exception\<close>
  clause catches it.
\<close>

datatype exn = HTTPException int string

fun is_Exception :: "exn \<Rightarrow> bool" where
  "is_Exception (HTTPException code detail) = True"

text \<open>
  What the source takes from the Python runtime and its libraries, kept as parameters:
  \<^verbatim>\<open>str(e)\<close> of a caught exception, the text an f-string gives for an enum member,
  and for the list of the registry's keys.
\<close>

record py_runtime =
  str_exc :: "exn \<Rightarrow> string"
  fmt_provider :: "Provider \<Rightarrow> string"
  fmt_providers :: "Provider list \<Rightarrow> string"

text \<open>
  The credential gate (lines 164-170): \<^verbatim>\<open>if request.auth_credentials:\<close> is false
  for \<^verbatim>\<open>None\<close> and for the empty dict; the result is the exception raised, if any.
\<close>

definition auth_gate :: "IntegrationRequest \<Rightarrow> exn option" where
  "auth_gate request =
     (case auth_credentials request of
        None \<Rightarrow> None
      | Some creds \<Rightarrow>
          if creds \<noteq> [] then
            (if \<not> truthy (validate_auth_credentials (auth_type request) creds)
             then Some (HTTPException 401 ''Invalid authentication credentials'')
             else None)
          else None)"

text \<open>The body of the \<^verbatim>\<open>try\<close> block (lines 154-194).\<close>

definition integrate_provider_try ::
  "py_runtime \<Rightarrow> Provider \<Rightarrow> IntegrationRequest \<Rightarrow> clock \<Rightarrow> (exn + IntegrationResponse) \<times> clock" where
  "integrate_provider_try rt p request t =
     (case map_of PROVIDER_HANDLERS p of
        None \<Rightarrow>
          (Inl (HTTPException 400
             (''Unsupported provider: '' @ fmt_provider rt p @ ''. Supported providers: ''
                @ fmt_providers rt (map fst PROVIDER_HANDLERS))), t)
      | Some handler_class \<Rightarrow>
          (case auth_gate request of
             Some e \<Rightarrow> (Inl e, t)
           | None \<Rightarrow>
               (let (result, t') =
                      handler_class (action request) (parameters request) (auth_credentials request) t
                in if dict_contains ''error'' result then
                     (Inr \<lparr>status = ''error'', data = result,
                           provider = Provider_value p, action_echo = action request\<rparr>, t')
                   else
                     (Inr \<lparr>status = ''success'', data = result,
                           provider = Provider_value p, action_echo = action request\<rparr>, t'))))"

text \<open>\<^verbatim>\<open>integrate_provider\<close> with its \<^verbatim>\<open>except Exception as e\<close> clause (lines 196-208).\<close>

definition integrate_provider ::
  "py_runtime \<Rightarrow> Provider \<Rightarrow> IntegrationRequest \<Rightarrow> clock \<Rightarrow> (exn + IntegrationResponse) \<times> clock" where
  "integrate_provider rt p request t =
     (case integrate_provider_try rt p request t of
        (Inr response, t') \<Rightarrow> (Inr response, t')
      | (Inl e, t') \<Rightarrow>
          if is_Exception e then
            (Inr \<lparr>status = ''error'',
                  data = [(''error'', JStr ''Internal server error''),
                          (''message'', JStr (str_exc rt e)),
                          (''provider'', JStr (Provider_value p)),
                          (''action'', JStr (action request))],
                  provider = Provider_value p, action_echo = action request\<rparr>, t')
          else (Inl e, t'))"

text \<open>
  The runtime of current releases, used where a closed example needs one. Starlette's
  \<^verbatim>\<open>HTTPException.__str__\<close> returns \<^verbatim>\<open>f"{status_code}: {detail}"\<close>; from
  Python 3.11 an f-string shows a member of a \<^verbatim>\<open>(str, Enum)\<close> class as
  \<^verbatim>\<open>Provider.SALESFORCE\<close>, and a list of members by their \<^verbatim>\<open>repr\<close>,
  \<^verbatim>\<open>[<Provider.SALESFORCE: 'salesforce'>, <Provider.UPS: 'ups'>]\<close>. The theorems
  hold for every runtime.
\<close>

fun str_nat :: "nat \<Rightarrow> string" where
  "str_nat n =
     (if n < 10 then [''0123456789'' ! n]
      else str_nat (n div 10) @ [''0123456789'' ! (n mod 10)])"

declare str_nat.simps [simp del]

definition str_int :: "int \<Rightarrow> string" where
  "str_int i = (if i < 0 then ''-'' @ str_nat (nat (- i)) else str_nat (nat i))"

fun Provider_name :: "Provider \<Rightarrow> string" where
  "Provider_name SALESFORCE = ''SALESFORCE''"
| "Provider_name UPS = ''UPS''"

definition repr_Provider :: "Provider \<Rightarrow> string" where
  "repr_Provider p =
     ''<Provider.'' @ Provider_name p @ '': '' @ [CHR 0x27] @ Provider_value p @ [CHR 0x27]
       @ ''>''"

fun join :: "string \<Rightarrow> string list \<Rightarrow> string" where
  "join sep [] = []"
| "join sep [x] = x"
| "join sep (x # y # ys) = x @ sep @ join sep (y # ys)"

definition cpython_runtime :: py_runtime where
  "cpython_runtime =
     \<lparr>str_exc = (\<lambda>e. case e of HTTPException code detail \<Rightarrow>
                        str_int code @ '': '' @ detail),
      fmt_provider = (\<lambda>p. ''Provider.'' @ Provider_name p),
      fmt_providers = (\<lambda>ps. ''['' @ join '', '' (map repr_Provider ps) @ '']'')\<rparr>"

section \<open>Basic facts\<close>

lemma str_nat_401: "str_nat 401 = ''401''"
  by (simp add: str_nat.simps [of 401] str_nat.simps [of 40] str_nat.simps [of 4])

lemma cpython_str_exc_401:
  "str_exc cpython_runtime (HTTPException 401 detail) = ''401: '' @ detail"
  by (simp add: cpython_runtime_def str_int_def str_nat_401)

lemma cpython_fmt_provider:
  "fmt_provider cpython_runtime SALESFORCE = ''Provider.SALESFORCE''"
  by (simp add: cpython_runtime_def)

lemma cpython_fmt_providers:
  "fmt_providers cpython_runtime (map fst PROVIDER_HANDLERS) =
     ''[<Provider.SALESFORCE: '' @ [CHR 0x27] @ ''salesforce'' @ [CHR 0x27] @
     ''>, <Provider.UPS: '' @ [CHR 0x27] @ ''ups'' @ [CHR 0x27] @ ''>]''"
  by (simp add: cpython_runtime_def PROVIDER_HANDLERS_def repr_Provider_def)

lemma cred_get_truthy:
  "truthy (cred_get c k) = (\<exists>v. map_of c k = Some v \<and> v \<noteq> [])"
  by (simp add: cred_get_def split: option.split)

lemma cred_get_present:
  "(cred_get c k \<noteq> PyNone) = (map_of c k \<noteq> None)"
  by (simp add: cred_get_def split: option.split)

lemma registry_total: "map_of PROVIDER_HANDLERS p = Some (handle_request p)"
  by (cases p) (simp_all add: PROVIDER_HANDLERS_def)

lemma handle_request_clock:
  "snd (handle_request p act params creds t) = t + delay p"
  by (cases p)
     (simp_all add: SalesforceHandler_handle_request_def UPSHandler_handle_request_def
        sleep_def Let_def)

lemma handle_request_result_indep:
  "fst (handle_request p act params creds t) = fst (handle_request p act params creds' t')"
  by (cases p)
     (simp_all add: SalesforceHandler_handle_request_def UPSHandler_handle_request_def Let_def)

lemma try_raises:
  "auth_gate request = Some e \<Longrightarrow> integrate_provider_try rt p request t = (Inl e, t)"
  by (simp add: integrate_provider_try_def registry_total)

lemma try_returns:
  "auth_gate request = None \<Longrightarrow>
   integrate_provider_try rt p request t =
     (Inr \<lparr>status =
             (if dict_contains ''error''
                   (fst (handle_request p (action request) (parameters request)
                           (auth_credentials request) t))
              then ''error'' else ''success''),
           data = fst (handle_request p (action request) (parameters request)
                         (auth_credentials request) t),
           provider = Provider_value p, action_echo = action request\<rparr>,
      t + delay p)"
  by (simp add: integrate_provider_try_def registry_total case_prod_beta
        handle_request_clock)

lemma catch_all:
  "auth_gate request = Some e \<Longrightarrow>
   integrate_provider rt p request t =
     (Inr \<lparr>status = ''error'',
           data = [(''error'', JStr ''Internal server error''),
                   (''message'', JStr (str_exc rt e)),
                   (''provider'', JStr (Provider_value p)),
                   (''action'', JStr (action request))],
           provider = Provider_value p, action_echo = action request\<rparr>, t)"
  by (cases e) (simp add: integrate_provider_def try_raises)

lemma no_catch:
  "auth_gate request = None \<Longrightarrow>
   integrate_provider rt p request t = integrate_provider_try rt p request t"
  by (simp add: integrate_provider_def try_returns)

lemma auth_gate_cases:
  "auth_gate request = None \<or>
   auth_gate request = Some (HTTPException 401 ''Invalid authentication credentials'')"
  by (simp add: auth_gate_def split: option.split)

section \<open>Credential validator: the presence rules\<close>

text \<open>
  C5. For every credential bag, the validator's result is truthy for \<open>password\<close> iff
  both \<open>username\<close> and \<open>password\<close> are present with non-empty values, for \<open>api_key\<close>
  iff the key \<open>api_key\<close> is present (whatever its value, the empty string included), for
  \<open>oauth\<close> iff the key \<open>access_token\<close> is present, and it is \<open>False\<close> for any other
  auth-type value (the explicit null).
\<close>

theorem validate_auth_credentials_rules:
  "(truthy (validate_auth_credentials (Some PASSWORD) c) =
      ((\<exists>u. map_of c ''username'' = Some u \<and> u \<noteq> []) \<and>
       (\<exists>w. map_of c ''password'' = Some w \<and> w \<noteq> []))) \<and>
   (truthy (validate_auth_credentials (Some API_KEY) c) = dict_contains ''api_key'' c) \<and>
   truthy (validate_auth_credentials (Some API_KEY) ((''api_key'', []) # c)) \<and>
   (truthy (validate_auth_credentials (Some OAUTH) c) = dict_contains ''access_token'' c) \<and>
   validate_auth_credentials None c = PyBool False"
  by (auto simp add: validate_auth_credentials_def py_and_def cred_get_truthy
      cred_get_present dict_contains_def)

section \<open>Properties of the provider handlers\<close>

text \<open>
  C3. For every provider and every action outside its known set, whatever the parameter
  bag, the handler returns (it is a total function: no path raises) the map with the
  two keys \<open>error\<close>, the text "Unknown <provider> action: <action>" with the provider
  spelled Salesforce or UPS, and \<open>available_actions\<close>, the provider's three known
  action names in declared order.
\<close>

theorem unknown_action_result:
  "act \<notin> set (known_actions p) \<Longrightarrow>
   fst (handle_request p act params creds t) =
     [(''error'', JStr (''Unknown '' @ display_name p @ '' action: '' @ act)),
      (''available_actions'', JList (map JStr (known_actions p)))] \<and>
   length (known_actions p) = 3"
  by (cases p)
     (simp_all add: SalesforceHandler_handle_request_def UPSHandler_handle_request_def Let_def)

theorem unknown_action_result_witness:
  "''bogus_action'' \<notin> set (known_actions SALESFORCE) \<and>
   fst (handle_request SALESFORCE ''bogus_action'' [] None 0) =
     [(''error'', JStr ''Unknown Salesforce action: bogus_action''),
      (''available_actions'',
         JList [JStr ''create_lead'', JStr ''update_contact'', JStr ''get_account''])]"
  using unknown_action_result [of "''bogus_action''" SALESFORCE "[]" None 0]
  by simp

text \<open>
  C4. For every provider, every one of its known actions and every parameter bag, the
  handler's result has no \<open>error\<close> key.
\<close>

theorem known_action_no_error:
  "act \<in> set (known_actions p) \<Longrightarrow>
   \<not> dict_contains ''error'' (fst (handle_request p act params creds t))"
  by (cases p)
     (auto simp add: SalesforceHandler_handle_request_def UPSHandler_handle_request_def
        Let_def dict_contains_def)

theorem known_action_no_error_witness:
  "''calculate_shipping'' \<in> set (known_actions UPS) \<and>
   \<not> dict_contains ''error''
        (fst (handle_request UPS ''calculate_shipping'' [(''weight'', JStr ''7'')] None 0))"
  using known_action_no_error [of "''calculate_shipping''" UPS "[(''weight'', JStr ''7'')]" None 0]
  by simp

text \<open>
  C8. Two successive calls of a handler with the same action, parameters and credentials
  return the same result map: the second call starts from the clock the first one left,
  and the result does not depend on the clock.
\<close>

theorem handle_request_deterministic:
  "fst (handle_request p act params creds
          (snd (handle_request p act params creds t))) =
   fst (handle_request p act params creds t)"
  by (rule handle_request_result_indep)

text \<open>
  C7. The CRM handler's \<open>create_lead\<close> result takes \<open>email\<close> and \<open>company\<close> from the
  parameter bag when the key is there and the canned literal otherwise, its \<open>status\<close>
  is always "New", and it never has an \<open>error\<close> key; dispatching \<open>create_lead\<close> with
  email "a@b.com" and company "Acme" and no credentials gives a success envelope with
  these values.
\<close>

theorem create_lead_defaults:
  "fst (SalesforceHandler_handle_request ''create_lead'' params creds t) =
     [(''id'', JStr ''00Q1234567890ABC''),
      (''email'', case map_of params ''email'' of
                    Some v \<Rightarrow> v | None \<Rightarrow> JStr ''test@example.com''),
      (''company'', case map_of params ''company'' of
                    Some v \<Rightarrow> v | None \<Rightarrow> JStr ''Test Company''),
      (''status'', JStr ''New''),
      (''created_date'', JStr ''2024-01-15T10:30:00Z'')] \<and>
   \<not> dict_contains ''error''
       (fst (SalesforceHandler_handle_request ''create_lead'' params creds t)) \<and>
   fst (integrate_provider rt SALESFORCE
          \<lparr>action = ''create_lead'', parameters = params,
           auth_type = atype, auth_credentials = None\<rparr> t) =
     Inr \<lparr>status = ''success'',
          data = fst (SalesforceHandler_handle_request ''create_lead'' params None t),
          provider = ''salesforce'', action_echo = ''create_lead''\<rparr> \<and>
   fst (integrate_provider rt SALESFORCE
          \<lparr>action = ''create_lead'',
           parameters = [(''email'', JStr ''a@b.com''), (''company'', JStr ''Acme'')],
           auth_type = Some API_KEY, auth_credentials = None\<rparr> t) =
     Inr \<lparr>status = ''success'',
          data = [(''id'', JStr ''00Q1234567890ABC''),
                  (''email'', JStr ''a@b.com''),
                  (''company'', JStr ''Acme''),
                  (''status'', JStr ''New''),
                  (''created_date'', JStr ''2024-01-15T10:30:00Z'')],
          provider = ''salesforce'', action_echo = ''create_lead''\<rparr>"
  by (simp add: no_catch try_returns auth_gate_def SalesforceHandler_handle_request_def
        Let_def dict_get_def dict_contains_def)

section \<open>Properties of the dispatcher\<close>

text \<open>
  C2. For every provider, action, parameter bag, auth type and optional credential bag,
  \<open>integrate_provider\<close> returns an envelope and raises nothing, and the envelope's
  \<open>provider\<close> and \<open>action\<close> are the request's, on the success path, the handler-error
  path and the path through the \<open>except\<close> clause alike.
\<close>

theorem integrate_provider_total:
  "\<exists>r t'. integrate_provider rt p request t = (Inr r, t') \<and>
          provider r = Provider_value p \<and> action_echo r = action request"
  using auth_gate_cases [of request]
  by (auto simp add: catch_all no_catch try_returns)

text \<open>
  C6. Whenever \<open>integrate_provider\<close> returns an envelope, its \<open>status\<close> is "error"
  exactly when an exception was raised in the \<open>try\<close> block or the handler's result
  map has an \<open>error\<close> key; otherwise it is "success"; and when no exception was raised
  \<open>data\<close> is the handler's result as it is.
\<close>

theorem envelope_status_iff:
  "integrate_provider rt p request t = (Inr r, t') \<Longrightarrow>
   (status r = ''error'') =
     ((\<exists>e. fst (integrate_provider_try rt p request t) = Inl e) \<or>
      dict_contains ''error''
        (fst (handle_request p (action request) (parameters request)
                (auth_credentials request) t))) \<and>
   (status r \<noteq> ''error'' \<longrightarrow>
      status r = ''success'' \<and>
      data r = fst (handle_request p (action request) (parameters request)
                      (auth_credentials request) t)) \<and>
   ((\<forall>e. fst (integrate_provider_try rt p request t) \<noteq> Inl e) \<longrightarrow>
      data r = fst (handle_request p (action request) (parameters request)
                      (auth_credentials request) t))"
  using auth_gate_cases [of request]
  by (auto simp add: catch_all no_catch try_returns try_raises)

theorem envelope_status_iff_witness:
  "integrate_provider cpython_runtime UPS
     \<lparr>action = ''track_package'', parameters = [(''tracking_number'', JStr ''1Z1'')],
      auth_type = Some API_KEY, auth_credentials = Some [(''api_key'', ''k'')]\<rparr> 0 =
     (Inr \<lparr>status = ''success'',
           data = [(''tracking_number'', JStr ''1Z1''),
                   (''status'', JStr ''In Transit''),
                   (''location'', JStr ''Memphis, TN''),
                   (''estimated_delivery'', JStr ''2024-01-18T14:00:00Z''),
                   (''shipment_details'',
                      JDict [(''weight'', JStr ''2.5 lbs''),
                             (''service'', JStr ''Ground''),
                             (''origin'', JStr ''New York, NY''),
                             (''destination'', JStr ''Los Angeles, CA'')])],
           provider = ''ups'', action_echo = ''track_package''\<rparr>, 800) \<and>
   fst (integrate_provider_try cpython_runtime UPS
     \<lparr>action = ''track_package'', parameters = [(''tracking_number'', JStr ''1Z1'')],
      auth_type = Some API_KEY, auth_credentials = Some [(''api_key'', ''k'')]\<rparr> 0) =
     Inr \<lparr>status = ''success'',
           data = fst (handle_request UPS ''track_package''
                         [(''tracking_number'', JStr ''1Z1'')] (Some [(''api_key'', ''k'')]) 0),
           provider = ''ups'', action_echo = ''track_package''\<rparr> \<and>
   \<not> dict_contains ''error''
       (fst (handle_request UPS ''track_package''
               [(''tracking_number'', JStr ''1Z1'')] (Some [(''api_key'', ''k'')]) 0))"
  using envelope_status_iff [of cpython_runtime UPS
     "\<lparr>action = ''track_package'', parameters = [(''tracking_number'', JStr ''1Z1'')],
      auth_type = Some API_KEY, auth_credentials = Some [(''api_key'', ''k'')]\<rparr>" 0
     "\<lparr>status = ''success'',
           data = [(''tracking_number'', JStr ''1Z1''),
                   (''status'', JStr ''In Transit''),
                   (''location'', JStr ''Memphis, TN''),
                   (''estimated_delivery'', JStr ''2024-01-18T14:00:00Z''),
                   (''shipment_details'',
                      JDict [(''weight'', JStr ''2.5 lbs''),
                             (''service'', JStr ''Ground''),
                             (''origin'', JStr ''New York, NY''),
                             (''destination'', JStr ''Los Angeles, CA'')])],
           provider = ''ups'', action_echo = ''track_package''\<rparr>" 800]
  by (simp add: integrate_provider_def integrate_provider_try_def PROVIDER_HANDLERS_def
        auth_gate_def validate_auth_credentials_def cred_get_def
        UPSHandler_handle_request_def sleep_def Let_def dict_get_def dict_contains_def)

text \<open>
  C1. A request with non-empty credentials that fail validation is to be answered by a
  transport-level rejection (HTTP 401), not by an envelope. The code raises
  \<open>HTTPException 401\<close> inside its \<open>try\<close> block, and its own \<open>except Exception\<close>
  clause catches it: the request of the repository's test
  \<open>test_invalid_auth_credentials\<close> (auth type password, credentials with a username
  only) is answered by an envelope of status "error" whose data says
  "Internal server error".
\<close>

theorem auth_failure_caught:
  "integrate_provider_try rt SALESFORCE
     \<lparr>action = ''create_lead'', parameters = [(''email'', JStr ''test@example.com'')],
      auth_type = Some PASSWORD, auth_credentials = Some [(''username'', ''test_user'')]\<rparr> t =
     (Inl (HTTPException 401 ''Invalid authentication credentials''), t) \<and>
   integrate_provider rt SALESFORCE
     \<lparr>action = ''create_lead'', parameters = [(''email'', JStr ''test@example.com'')],
      auth_type = Some PASSWORD, auth_credentials = Some [(''username'', ''test_user'')]\<rparr> t =
     (Inr \<lparr>status = ''error'',
           data = [(''error'', JStr ''Internal server error''),
                   (''message'',
                      JStr (str_exc rt (HTTPException 401 ''Invalid authentication credentials''))),
                   (''provider'', JStr ''salesforce''),
                   (''action'', JStr ''create_lead'')],
           provider = ''salesforce'', action_echo = ''create_lead''\<rparr>, t)"
  by (simp add: integrate_provider_def integrate_provider_try_def PROVIDER_HANDLERS_def
        auth_gate_def validate_auth_credentials_def cred_get_def py_and_def)

text \<open>
  C9. When the request's credentials are absent or the empty mapping, whatever its auth
  type, the credential gate raises nothing and does not consult the validator, and the
  dispatcher invokes the handler and wraps its result.
\<close>

theorem no_credentials_skip_validation:
  "creds = None \<or> creds = Some [] \<Longrightarrow>
   auth_gate \<lparr>action = act, parameters = params,
              auth_type = atype, auth_credentials = creds\<rparr> = None \<and>
   integrate_provider rt p
     \<lparr>action = act, parameters = params, auth_type = atype, auth_credentials = creds\<rparr> t =
     (Inr \<lparr>status = (if dict_contains ''error'' (fst (handle_request p act params creds t))
                     then ''error'' else ''success''),
           data = fst (handle_request p act params creds t),
           provider = Provider_value p, action_echo = act\<rparr>,
      snd (handle_request p act params creds t))"
  by (auto simp add: no_catch try_returns auth_gate_def handle_request_clock)

theorem no_credentials_skip_validation_witness:
  "integrate_provider cpython_runtime SALESFORCE
     \<lparr>action = ''get_account'', parameters = [], auth_type = Some PASSWORD,
      auth_credentials = None\<rparr> 0 =
     (Inr \<lparr>status = ''success'',
           data = [(''id'', JStr ''0011234567890ABC''),
                   (''name'', JStr ''Acme Corporation''),
                   (''industry'', JStr ''Technology''),
                   (''annual_revenue'', JInt 1000000),
                   (''employees'', JInt 500)],
           provider = ''salesforce'', action_echo = ''get_account''\<rparr>, 500) \<and>
   integrate_provider cpython_runtime SALESFORCE
     \<lparr>action = ''get_account'', parameters = [], auth_type = None,
      auth_credentials = Some []\<rparr> 0 =
     (Inr \<lparr>status = ''success'',
           data = [(''id'', JStr ''0011234567890ABC''),
                   (''name'', JStr ''Acme Corporation''),
                   (''industry'', JStr ''Technology''),
                   (''annual_revenue'', JInt 1000000),
                   (''employees'', JInt 500)],
           provider = ''salesforce'', action_echo = ''get_account''\<rparr>, 500)"
  using no_credentials_skip_validation
          [of None "''get_account''" "[]" "Some PASSWORD" cpython_runtime SALESFORCE 0]
        no_credentials_skip_validation
          [of "Some []" "''get_account''" "[]" None cpython_runtime SALESFORCE 0]
  by (simp add: SalesforceHandler_handle_request_def sleep_def Let_def dict_get_def
        dict_contains_def)

text \<open>
  C10. With an explicit null auth type and a non-empty credential bag, whatever keys the
  bag holds, the validator falls through to its last line and returns \<open>False\<close>, and
  the request is to be treated as an authentication failure. The validator does return
  \<open>False\<close> and the credential gate raises \<open>HTTPException 401\<close> before any handler
  runs, but the \<open>except Exception\<close> clause of the same function catches it: the
  caller is answered by an envelope of status "error" whose data says
  "Internal server error", as for the request of C1.
\<close>

theorem null_auth_type_caught:
  "validate_auth_credentials None ((k, v) # rest) = PyBool False \<and>
   integrate_provider_try rt p
     \<lparr>action = act, parameters = params, auth_type = None,
      auth_credentials = Some ((k, v) # rest)\<rparr> t =
     (Inl (HTTPException 401 ''Invalid authentication credentials''), t) \<and>
   integrate_provider rt p
     \<lparr>action = act, parameters = params, auth_type = None,
      auth_credentials = Some ((k, v) # rest)\<rparr> t =
     (Inr \<lparr>status = ''error'',
           data = [(''error'', JStr ''Internal server error''),
                   (''message'',
                      JStr (str_exc rt (HTTPException 401 ''Invalid authentication credentials''))),
                   (''provider'', JStr (Provider_value p)),
                   (''action'', JStr act)],
           provider = Provider_value p, action_echo = act\<rparr>, t)"
proof -
  let ?req = "\<lparr>action = act, parameters = params, auth_type = None,
               auth_credentials = Some ((k, v) # rest)\<rparr>"
  have v: "validate_auth_credentials None ((k, v) # rest) = PyBool False"
    by (simp add: validate_auth_credentials_def)
  have g: "auth_gate ?req = Some (HTTPException 401 ''Invalid authentication credentials'')"
    by (simp add: auth_gate_def v)
  show ?thesis
    using v try_raises [OF g, of rt p t] catch_all [OF g, of rt p t] by simp
qed

end
